theory Spec2Isabelle
  imports Complex_Main "HOL-Library.AList" "HOL-Library.Sublist"
    "HOL-Library.Char_ord" "HOL-Library.List_Lexorder"
begin

section \<open>Numbers, optional arguments and strings\<close>

text \<open>
  Timestamps are integer milliseconds since the epoch (\<open>Date.now()\<close> and the values
  \<open>Math.round\<close> produces); quotients and metric values are real numbers, so the
  rounding of IEEE doubles and \<open>NaN\<close> are left out. An optional
  parameter \<open>x?: number\<close> is an \<open>int option\<close>, \<open>None\<close> standing for \<open>undefined\<close>.
  JavaScript's truthiness test on such a value fails for \<open>undefined\<close> and for \<open>0\<close>.
\<close>

definition truthy :: "int option \<Rightarrow> bool" where
  "truthy x = (case x of None \<Rightarrow> False | Some v \<Rightarrow> v \<noteq> 0)"

text \<open>\<open>x || d\<close> on an optional number.\<close>

definition or_else :: "int option \<Rightarrow> int \<Rightarrow> int" where
  "or_else x d = (if truthy x then the x else d)"

text \<open>\<open>Math.round\<close> rounds halves towards plus infinity.\<close>

definition Math_round :: "real \<Rightarrow> int" where
  "Math_round x = \<lfloor>x + 1 / 2\<rfloor>"

text \<open>
  \<open>parseFloat(x.toFixed(1))\<close> for \<open>x \<ge> 0\<close>: the integer \<open>n\<close> with \<open>n / 10\<close> nearest to
  \<open>x\<close>, the larger one on a tie, read back as a number.
\<close>

definition toFixed1 :: "real \<Rightarrow> real" where
  "toFixed1 x = real_of_int \<lfloor>x * 10 + 1 / 2\<rfloor> / 10"

section \<open>utils/monitorData.ts\<close>

datatype Resolution = R1d | R1h | R1m | R30s

fun RESOLUTION_INTERVALS :: "Resolution \<Rightarrow> int" where
  "RESOLUTION_INTERVALS R1d = 24 * 60 * 60 * 1000"
| "RESOLUTION_INTERVALS R1h = 60 * 60 * 1000"
| "RESOLUTION_INTERVALS R1m = 60 * 1000"
| "RESOLUTION_INTERVALS R30s = 30 * 1000"

text \<open>
  A \<open>MetricPoint\<close> is a JavaScript object: its own string keys in insertion order,
  key \<open>t\<close> first. Assigning to an existing key overwrites in place. Metric names are
  ordinary property names.
\<close>

type_synonym MetricPoint = "(string \<times> real) list"

record MetricsResponse =
  step :: Resolution
  points :: "MetricPoint list"

text \<open>
  The outcomes of \<open>Math.random()\<close> during one call are a sequence \<open>rnd\<close>; \<open>rnd k\<close> is
  the \<open>k\<close>-th draw. Each function that draws takes the index of its next draw and
  returns the index after its last one.
\<close>

type_synonym rng = "nat \<Rightarrow> real"

definition generateRandomValue :: "rng \<Rightarrow> nat \<Rightarrow> real \<Rightarrow> real \<Rightarrow> real \<Rightarrow> real \<times> nat" where
  "generateRandomValue rnd k base range' volatility =
     (max 0 (min 100 (base + (rnd k - 0.5) * range'
                           + (rnd (k + 1) - 0.5) * volatility * range')),
      k + 2)"

fun getPointCount :: "int \<Rightarrow> int \<Rightarrow> Resolution \<Rightarrow> int" where
  "getPointCount start end' resolution =
     (let duration = end' - start in
      case resolution of
        R30s \<Rightarrow> \<lceil>real_of_int duration / real_of_int (RESOLUTION_INTERVALS R30s)\<rceil>
      | R1m \<Rightarrow> \<lceil>real_of_int duration / real_of_int (RESOLUTION_INTERVALS R1m)\<rceil>
      | R1h \<Rightarrow> \<lceil>real_of_int duration / real_of_int (RESOLUTION_INTERVALS R1h)\<rceil>
      | R1d \<Rightarrow> \<lceil>real_of_int duration / real_of_int (RESOLUTION_INTERVALS R1d)\<rceil>)"

text \<open>The first \<open>forEach\<close>: one draw per metric, the base value of its family.\<close>

definition baseValueStep :: "rng \<Rightarrow> string \<Rightarrow> (string \<times> real) list \<times> nat
    \<Rightarrow> (string \<times> real) list \<times> nat" where
  "baseValueStep rnd metric st =
     (case st of (baseValues, k) \<Rightarrow>
        if prefix ''cpu'' metric then (AList.update metric (30 + rnd k * 20) baseValues, k + 1)
        else if prefix ''gpu'' metric then (AList.update metric (40 + rnd k * 30) baseValues, k + 1)
        else if metric = ''memory'' then (AList.update metric (60 + rnd k * 20) baseValues, k + 1)
        else (AList.update metric (50 + rnd k * 30) baseValues, k + 1))"

definition metricRange :: "string \<Rightarrow> real" where
  "metricRange metric =
     (if prefix ''cpu'' metric
      then (if metric = ''cpu_1'' then 10 else if metric = ''cpu_2'' then 8 else 12)
      else if prefix ''gpu'' metric then (if metric = ''gpu_1'' then 15 else 12)
      else if metric = ''memory'' then 8
      else 15)"

text \<open>The inner \<open>forEach\<close>: the value of one metric is stored into the point.\<close>

definition pointStep :: "rng \<Rightarrow> (string \<times> real) list \<Rightarrow> string \<Rightarrow> MetricPoint \<times> nat
    \<Rightarrow> MetricPoint \<times> nat" where
  "pointStep rnd baseValues metric st =
     (case st of (point, k) \<Rightarrow>
        let range' = metricRange metric;
            (v, k') = generateRandomValue rnd k (the (map_of baseValues metric)) range' 0.1
        in (AList.update metric (toFixed1 v) point, k'))"

text \<open>The \<open>for\<close> loop over \<open>i\<close>, with the points pushed so far and the next draw.\<close>

function pointsLoop :: "rng \<Rightarrow> string list \<Rightarrow> (string \<times> real) list \<Rightarrow> int \<Rightarrow> real
    \<Rightarrow> int \<Rightarrow> int \<Rightarrow> MetricPoint list \<times> nat \<Rightarrow> MetricPoint list \<times> nat" where
  "pointsLoop rnd defaultMetrics baseValues startTime interval pointCount i st =
     (if i < pointCount then
        let timestamp = Math_round (real_of_int startTime + real_of_int i * interval);
            point = [(''t'', real_of_int timestamp)];
            (point', k') = fold (pointStep rnd baseValues) defaultMetrics (point, snd st)
        in pointsLoop rnd defaultMetrics baseValues startTime interval pointCount (i + 1)
             (fst st @ [point'], k')
      else st)"
  by pat_completeness auto
termination
  by (relation "measure (\<lambda>(rnd, ms, bv, s, iv, pointCount, i, st). nat (pointCount - i))") auto

declare pointsLoop.simps [simp del]

definition generateDataByResolution :: "int \<Rightarrow> rng \<Rightarrow> Resolution \<Rightarrow> int option \<Rightarrow> int option
    \<Rightarrow> string list option \<Rightarrow> MetricsResponse" where
  "generateDataByResolution now rnd resolution start end' metrics =
     (let defaultMetrics = (case metrics of Some ms \<Rightarrow> ms
            | None \<Rightarrow> [''cpu_1'', ''cpu_2'', ''cpu_3'', ''gpu_1'', ''gpu_2'', ''memory'']);
          defaultStart = now - 365 * 24 * 60 * 60 * 1000;
          startTime = or_else start defaultStart;
          endTime = or_else end' now;
          pointCount = min (getPointCount startTime endTime resolution) 10000;
          (baseValues, k) = fold (baseValueStep rnd) defaultMetrics ([], 0);
          interval = real_of_int (endTime - startTime)
                       / real_of_int (if pointCount - 1 = 0 then 1 else pointCount - 1);
          (pts, k') = pointsLoop rnd defaultMetrics baseValues startTime interval pointCount 0
                        ([], k)
      in \<lparr>step = resolution, points = pts\<rparr>)"

text \<open>
  \<open>fetchMetrics\<close> waits for a random delay (one draw) and then generates the data.
  Awaiting it gives an error (a rejected promise) or a response; this one never rejects.
\<close>

datatype error = FetchError string

definition fetchMetrics :: "int \<Rightarrow> rng \<Rightarrow> int \<Rightarrow> int \<Rightarrow> string list \<Rightarrow> Resolution
    \<Rightarrow> error + MetricsResponse" where
  "fetchMetrics now rnd start end' metrics resolution =
     Inr (generateDataByResolution now (\<lambda>k. rnd (k + 1)) resolution
            (Some start) (Some end') (Some metrics))"

definition getResolutionForRange :: "int \<Rightarrow> int \<Rightarrow> Resolution" where
  "getResolutionForRange start end' =
     (let duration = end' - start;
          durationInYears = real_of_int duration / (365 * 24 * 60 * 60 * 1000);
          durationInMonths = real_of_int duration / (30 * 24 * 60 * 60 * 1000);
          durationInDays = real_of_int duration / (24 * 60 * 60 * 1000);
          durationInHours = real_of_int duration / (60 * 60 * 1000)
      in if durationInYears \<ge> 1 then R1d
         else if durationInMonths \<ge> 1 then R1h
         else if durationInDays \<ge> 1 then R1m
         else if durationInHours \<ge> 1 then R1m
         else R30s)"

definition generateInitialData :: "int \<Rightarrow> rng \<Rightarrow> MetricsResponse" where
  "generateInitialData now rnd =
     (let start = now - 365 * 24 * 60 * 60 * 1000
      in generateDataByResolution now rnd R1d (Some start) (Some now) None)"

section \<open>services/monitorService.ts\<close>

text \<open>Template strings: a number prints in decimal, a resolution as its literal.\<close>

fun digitsOf :: "nat \<Rightarrow> string" where
  "digitsOf n =
     (if n < 10 then [''0123456789'' ! n]
      else digitsOf (n div 10) @ [''0123456789'' ! (n mod 10)])"

declare digitsOf.simps [simp del]

definition numToString :: "int \<Rightarrow> string" where
  "numToString i = (if i < 0 then ''-'' @ digitsOf (nat (- i)) else digitsOf (nat i))"

fun resolutionString :: "Resolution \<Rightarrow> string" where
  "resolutionString R1d = ''1d''"
| "resolutionString R1h = ''1h''"
| "resolutionString R1m = ''1m''"
| "resolutionString R30s = ''30s''"

fun join :: "string \<Rightarrow> string list \<Rightarrow> string" where
  "join sep [] = []"
| "join sep [x] = x"
| "join sep (x # y # ys) = x @ sep @ join sep (y # ys)"

record MonitorService =
  cache :: "string \<rightharpoonup> MetricsResponse"
  cacheExpiry :: "string \<rightharpoonup> int"

definition CACHE_DURATION :: int where
  "CACHE_DURATION = 5 * 60 * 1000"

text \<open>
  \<open>metrics.sort()\<close> sorts the caller's array in place, by code units, before joining it:
  the key is returned together with the array as it is afterwards.
\<close>

definition generateCacheKey :: "int \<Rightarrow> int \<Rightarrow> Resolution \<Rightarrow> string list
    \<Rightarrow> string \<times> string list" where
  "generateCacheKey start end' resolution metrics =
     (let sorted = sort metrics
      in (numToString start @ ''-'' @ numToString end' @ ''-''
            @ resolutionString resolution @ ''-'' @ join '','' sorted,
          sorted))"

text \<open>
  The validity test of \<open>getData\<close>:
  \<open>this.cache[cacheKey] && now - this.cacheExpiry[cacheKey] < this.CACHE_DURATION\<close>.
  A missing expiry stamp makes the comparison false.
\<close>

definition cacheLookup :: "MonitorService \<Rightarrow> string \<Rightarrow> int \<Rightarrow> MetricsResponse option" where
  "cacheLookup s cacheKey now =
     (case cache s cacheKey of
        None \<Rightarrow> None
      | Some data \<Rightarrow>
          (case cacheExpiry s cacheKey of
             None \<Rightarrow> None
           | Some fetchedAt \<Rightarrow> if now - fetchedAt < CACHE_DURATION then Some data else None))"

text \<open>
  The service together with a log of the calls made to the remote fetch, oldest first.
\<close>

record world =
  service :: MonitorService
  fetchLog :: "(int \<times> int \<times> string list \<times> Resolution) list"

text \<open>
  \<open>getData\<close> is an \<open>async\<close> function. It runs without interruption up to its
  \<open>await\<close>: it reads the clock, looks the key up and, on a miss, calls
  \<open>fetchMetrics\<close>; there it is suspended, and other calls may run. What it holds
  across the suspension is a \<open>pendingFetch\<close>.
\<close>

record pendingFetch =
  pendingKey :: string
  pendingNow :: int
  pendingStart :: int
  pendingEnd :: int
  pendingMetrics :: "string list"
  pendingResolution :: Resolution

datatype started = Done MetricsResponse | Awaiting pendingFetch

definition getDataBegin :: "int \<Rightarrow> int \<Rightarrow> int \<Rightarrow> string list \<Rightarrow> world \<Rightarrow> started \<times> world" where
  "getDataBegin now start end' metrics w =
     (let resolution = getResolutionForRange start end';
          (cacheKey, metrics) = generateCacheKey start end' resolution metrics
      in case cacheLookup (service w) cacheKey now of
           Some data \<Rightarrow> (Done data, w)
         | None \<Rightarrow>
             (Awaiting \<lparr>pendingKey = cacheKey, pendingNow = now, pendingStart = start,
                        pendingEnd = end', pendingMetrics = metrics,
                        pendingResolution = resolution\<rparr>,
              w\<lparr>fetchLog := fetchLog w @ [(start, end', metrics, resolution)]\<rparr>))"

text \<open>
  The rest of \<open>getData\<close>, run when the awaited fetch settles with \<open>outcome\<close>
  (\<open>Inl\<close> when it throws). \<open>now'\<close> and \<open>rnd\<close> are the clock and the draws of the
  generator in the \<open>catch\<close> block. The result is \<open>Inl\<close> when \<open>getData\<close> itself
  rejects.
\<close>

definition getDataResume :: "int \<Rightarrow> rng \<Rightarrow> pendingFetch \<Rightarrow> error + MetricsResponse \<Rightarrow> world
    \<Rightarrow> (error + MetricsResponse) \<times> world" where
  "getDataResume now' rnd p outcome w =
     (case outcome of
        Inr data \<Rightarrow>
          (Inr data,
           w\<lparr>service := (service w)
                 \<lparr>cache := (cache (service w))(pendingKey p \<mapsto> data),
                  cacheExpiry := (cacheExpiry (service w))(pendingKey p \<mapsto> pendingNow p)\<rparr>\<rparr>)
      | Inl err \<Rightarrow>
          (Inr (generateDataByResolution now' rnd (pendingResolution p)
                  (Some (pendingStart p)) (Some (pendingEnd p)) (Some (pendingMetrics p))),
           w))"

text \<open>
  A started call settles: at once when it was served from the cache, else when its
  fetch settles. \<open>fetch\<close> gives the outcome of the awaited \<open>fetchMetrics\<close>.
\<close>

definition getDataSettle :: "(int \<Rightarrow> int \<Rightarrow> string list \<Rightarrow> Resolution \<Rightarrow> error + MetricsResponse)
    \<Rightarrow> int \<Rightarrow> rng \<Rightarrow> started \<Rightarrow> world \<Rightarrow> (error + MetricsResponse) \<times> world" where
  "getDataSettle fetch now' rnd st w =
     (case st of
        Done data \<Rightarrow> (Inr data, w)
      | Awaiting p \<Rightarrow>
          getDataResume now' rnd p
            (fetch (pendingStart p) (pendingEnd p) (pendingMetrics p) (pendingResolution p)) w)"

text \<open>
  A call of \<open>getData\<close> that nothing interrupts, from the call to the settling of its
  promise. \<open>now\<close> is the clock read by \<open>getData\<close>.
\<close>

definition getData :: "(int \<Rightarrow> int \<Rightarrow> string list \<Rightarrow> Resolution \<Rightarrow> error + MetricsResponse)
    \<Rightarrow> int \<Rightarrow> int \<Rightarrow> rng \<Rightarrow> int \<Rightarrow> int \<Rightarrow> string list \<Rightarrow> world
    \<Rightarrow> (error + MetricsResponse) \<times> world" where
  "getData fetch now now' rnd start end' metrics w =
     (let (st, w1) = getDataBegin now start end' metrics w
      in getDataSettle fetch now' rnd st w1)"

text \<open>
  Two calls with the same arguments, the second made at \<open>now2\<close> while the first is
  suspended at its \<open>await\<close>; the first then settles, and the second after it.
\<close>

definition twoCallsOverlapped :: "(int \<Rightarrow> int \<Rightarrow> string list \<Rightarrow> Resolution \<Rightarrow> error + MetricsResponse)
    \<Rightarrow> int \<Rightarrow> int \<Rightarrow> int \<Rightarrow> rng \<Rightarrow> int \<Rightarrow> int \<Rightarrow> string list \<Rightarrow> world \<Rightarrow> world" where
  "twoCallsOverlapped fetch now1 now2 now' rnd start end' metrics w =
     (let (st1, w1) = getDataBegin now1 start end' metrics w;
          (st2, w2) = getDataBegin now2 start end' metrics w1;
          (r1, w3) = getDataSettle fetch now' rnd st1 w2;
          (r2, w4) = getDataSettle fetch now' rnd st2 w3
      in w4)"

definition getInitialData :: "int \<Rightarrow> rng \<Rightarrow> MetricsResponse" where
  "getInitialData now rnd = generateInitialData now rnd"

text \<open>
  \<open>clearCache\<close>: every argument is optional, and the specific branch is taken when all
  four are truthy. A resolution is a non-empty string and an array is an object, so
  these two are truthy whenever they are given.
\<close>

definition clearCache :: "int option \<Rightarrow> int option \<Rightarrow> Resolution option \<Rightarrow> string list option
    \<Rightarrow> MonitorService \<Rightarrow> MonitorService" where
  "clearCache start end' resolution metrics s =
     (if truthy start \<and> truthy end' \<and> resolution \<noteq> None \<and> metrics \<noteq> None then
        let (cacheKey, sorted) =
              generateCacheKey (the start) (the end') (the resolution) (the metrics)
        in s\<lparr>cache := (cache s)(cacheKey := None),
             cacheExpiry := (cacheExpiry s)(cacheKey := None)\<rparr>
      else s\<lparr>cache := Map.empty, cacheExpiry := Map.empty\<rparr>)"

definition getResolution :: "int \<Rightarrow> int \<Rightarrow> Resolution" where
  "getResolution start end' = getResolutionForRange start end'"

definition emptyService :: MonitorService where
  "emptyService = \<lparr>cache = Map.empty, cacheExpiry = Map.empty\<rparr>"

definition emptyWorld :: world where
  "emptyWorld = \<lparr>service = emptyService, fetchLog = []\<rparr>"

section \<open>components/MonitorChart.tsx\<close>

subsection \<open>Debounced zoom handling\<close>











subsection \<open>Render sampling\<close>

text \<open>
  A row of \<open>number[][]\<close> is a list of numbers; \<open>row[0]\<close> is \<open>undefined\<close> on an empty
  row, and \<open>!==\<close> compares two such values.
\<close>

definition at0 :: "real list \<Rightarrow> real option" where
  "at0 row = (case row of [] \<Rightarrow> None | x # xs \<Rightarrow> Some x)"

text \<open>
  The \<open>for\<close> loop of \<open>sampleData\<close>; it returns nothing if it does not stop.
\<close>

partial_function (option) sampleLoop :: "real list list \<Rightarrow> nat \<Rightarrow> nat \<Rightarrow> real list list
    \<Rightarrow> real list list option" where
  "sampleLoop data step' i sampledData =
     (if i < length data then sampleLoop data step' (i + step') (sampledData @ [data ! i])
      else Some sampledData)"

text \<open>
  \<open>maxPoints\<close> is a point budget, a natural number (the component passes a width
  between 200 and 1000; the default is 500). With budget 0 and a non-empty list the
  quotient is \<open>Infinity\<close>, so the loop body runs for \<open>i = 0\<close> only.
\<close>

definition sampleData :: "real list list \<Rightarrow> nat \<Rightarrow> real list list option" where
  "sampleData data maxPoints =
     (if length data \<le> maxPoints then Some data
      else
        case (if maxPoints = 0 then Some [data ! 0]
              else sampleLoop data (nat \<lceil>real (length data) / real maxPoints\<rceil>) 0 [])
        of None \<Rightarrow> None
         | Some sampledData \<Rightarrow>
             if at0 (last sampledData) \<noteq> at0 (last data)
             then Some (sampledData @ [last data])
             else Some sampledData)"

text \<open>The key that \<open>generateCacheKey\<close> derives from a tuple.\<close>

definition cacheKeyOf :: "int \<Rightarrow> int \<Rightarrow> Resolution \<Rightarrow> string list \<Rightarrow> string" where
  "cacheKeyOf start end' resolution metrics = fst (generateCacheKey start end' resolution metrics)"

text \<open>A point carries a value for a metric, and the value is a percentage.\<close>

definition metricInRange :: "MetricPoint \<Rightarrow> string \<Rightarrow> bool" where
  "metricInRange point metric =
     (case map_of point metric of None \<Rightarrow> False | Some v \<Rightarrow> 0 \<le> v \<and> v \<le> 100)"

text \<open>The metric list that \<open>generateDataByResolution\<close> works with: \<open>metrics || [...]\<close>.\<close>

definition metricsOrDefault :: "string list option \<Rightarrow> string list" where
  "metricsOrDefault metrics =
     (case metrics of Some ms \<Rightarrow> ms
      | None \<Rightarrow> [''cpu_1'', ''cpu_2'', ''cpu_3'', ''gpu_1'', ''gpu_2'', ''memory''])"

text \<open>
  The window and the number of points that \<open>generateDataByResolution\<close> works with:
  \<open>start || defaultStart\<close>, \<open>end || now\<close>, and the point count after the cap.
\<close>

definition effectiveStart :: "int \<Rightarrow> int option \<Rightarrow> int" where
  "effectiveStart now start = or_else start (now - 365 * 24 * 60 * 60 * 1000)"

definition effectiveEnd :: "int \<Rightarrow> int option \<Rightarrow> int" where
  "effectiveEnd now end' = or_else end' now"

definition cappedPointCount :: "int \<Rightarrow> Resolution \<Rightarrow> int option \<Rightarrow> int option \<Rightarrow> int" where
  "cappedPointCount now resolution start end' =
     min (getPointCount (effectiveStart now start) (effectiveEnd now end') resolution) 10000"

text \<open>
  Two environments used in the examples: a remote fetch that always throws, and a
  random source whose every draw is one half.
\<close>

definition failingFetch :: "int \<Rightarrow> int \<Rightarrow> string list \<Rightarrow> Resolution \<Rightarrow> error + MetricsResponse" where
  "failingFetch start end' metrics resolution = Inl (FetchError ''timeout'')"

definition midDraws :: rng where
  "midDraws k = 1 / 2"

text \<open>The indices that the loop of \<open>sampleData\<close> visits from \<open>i\<close> on, for a positive step.\<close>

function strideFrom :: "nat \<Rightarrow> nat \<Rightarrow> nat \<Rightarrow> nat list" where
  "strideFrom n step' i = (if i < n \<and> 0 < step' then i # strideFrom n step' (i + step') else [])"
  by pat_completeness auto
termination
  by (relation "measure (\<lambda>(n, step', i). n - i)") auto

declare strideFrom.simps [simp del]



section \<open>Resolution policy\<close>

text \<open>
  C1. For a window of non-negative duration \<open>d = end - start\<close> the resolution is
  \<open>1d\<close> exactly when \<open>d\<close> is at least 365 days, \<open>1h\<close> exactly when \<open>d\<close> is at least
  30 days and below 365 days, \<open>1m\<close> exactly when \<open>d\<close> is at least one hour and below
  30 days, and \<open>30s\<close> exactly when \<open>d\<close> is below one hour. Duration 0 gives \<open>30s\<close>;
  exactly one hour, 30 days and 365 days give \<open>1m\<close>, \<open>1h\<close> and \<open>1d\<close>.
\<close>

theorem getResolutionForRange_policy:
  assumes "0 \<le> end' - start"
  shows "(getResolutionForRange start end' = R1d \<longleftrightarrow> 365 * 86400000 \<le> end' - start)
       \<and> (getResolutionForRange start end' = R1h
            \<longleftrightarrow> 30 * 86400000 \<le> end' - start \<and> end' - start < 365 * 86400000)
       \<and> (getResolutionForRange start end' = R1m
            \<longleftrightarrow> 3600000 \<le> end' - start \<and> end' - start < 30 * 86400000)
       \<and> (getResolutionForRange start end' = R30s
            \<longleftrightarrow> 0 \<le> end' - start \<and> end' - start < 3600000)
       \<and> getResolutionForRange start start = R30s
       \<and> getResolutionForRange start (start + 3600000) = R1m
       \<and> getResolutionForRange start (start + 30 * 86400000) = R1h
       \<and> getResolutionForRange start (start + 365 * 86400000) = R1d"
  using assms by (simp add: getResolutionForRange_def Let_def)

theorem getResolutionForRange_policy_witness:
  "(0::int) \<le> 1700007200000 - 1700000000000
   \<and> getResolutionForRange 1700000000000 1700007200000 = R1m
   \<and> getResolutionForRange 1700000000000 1700000000000 = R30s"
  using getResolutionForRange_policy [where start = 1700000000000 and end' = 1700007200000]
  by simp

section \<open>Data loader\<close>

lemma cacheLookup_expired_later:
  "cacheLookup s k now = None \<Longrightarrow> now \<le> t \<Longrightarrow> cacheLookup s k t = None"
  by (auto simp: cacheLookup_def split: option.splits if_splits)

lemma generateCacheKey_eq:
  "generateCacheKey start end' resolution metrics
     = (cacheKeyOf start end' resolution metrics, sort metrics)"
  by (simp add: cacheKeyOf_def generateCacheKey_def Let_def)

lemma cacheKeyOf_cong:
  assumes "sort ms2 = sort metrics"
  shows "cacheKeyOf start end' resolution ms2 = cacheKeyOf start end' resolution metrics"
  unfolding cacheKeyOf_def generateCacheKey_def Let_def fst_conv
  by (simp only: assms)

lemma getData_unfold:
  "getData fetch now now' rnd start end' metrics w =
     (case cacheLookup (service w)
             (cacheKeyOf start end' (getResolutionForRange start end') metrics) now of
        Some data \<Rightarrow> (Inr data, w)
      | None \<Rightarrow>
          (case fetch start end' (sort metrics) (getResolutionForRange start end') of
             Inr data \<Rightarrow>
               (Inr data,
                \<lparr>service = (service w)
                   \<lparr>cache := (cache (service w))
                      (cacheKeyOf start end' (getResolutionForRange start end') metrics \<mapsto> data),
                    cacheExpiry := (cacheExpiry (service w))
                      (cacheKeyOf start end' (getResolutionForRange start end') metrics \<mapsto> now)\<rparr>,
                 fetchLog = fetchLog w
                   @ [(start, end', sort metrics, getResolutionForRange start end')]\<rparr>)
           | Inl err \<Rightarrow>
               (Inr (generateDataByResolution now' rnd (getResolutionForRange start end')
                       (Some start) (Some end') (Some (sort metrics))),
                \<lparr>service = service w,
                 fetchLog = fetchLog w
                   @ [(start, end', sort metrics, getResolutionForRange start end')]\<rparr>)))"
  by (simp add: getData_def getDataBegin_def getDataSettle_def getDataResume_def
      generateCacheKey_eq Let_def split: option.splits sum.splits)

text \<open>
  C2. When the remote fetch throws, \<open>getData\<close> still resolves with a series: the
  error is not passed on, and the cache and its expiry stamps are as before. When
  the fetch was reached (the cache had no valid entry for the key), the series is
  the one \<open>generateDataByResolution\<close> synthesizes for the same resolution, bounds
  and metric array (which the key derivation has sorted in place); the key has no
  valid entry at any later time, and a later identical request calls the remote
  fetch again.
\<close>

theorem getData_fetch_failure:
  assumes fails: "fetch start end' (sort metrics) (getResolutionForRange start end') = Inl err"
  shows "(\<exists>r. fst (getData fetch now now' rnd start end' metrics w) = Inr r)
       \<and> service (snd (getData fetch now now' rnd start end' metrics w)) = service w
       \<and> (cacheLookup (service w)
             (cacheKeyOf start end' (getResolutionForRange start end') metrics) now = None
           \<longrightarrow> fst (getData fetch now now' rnd start end' metrics w)
                 = Inr (generateDataByResolution now' rnd (getResolutionForRange start end')
                          (Some start) (Some end') (Some (sort metrics)))
             \<and> (\<forall>t\<ge>now. cacheLookup (service (snd (getData fetch now now' rnd start end' metrics w)))
                   (cacheKeyOf start end' (getResolutionForRange start end') metrics) t
                 = None)
             \<and> (\<forall>t\<ge>now. \<forall>ms2. sort ms2 = sort metrics \<longrightarrow>
                   fetchLog (snd (getData fetch2 t t' rnd2 start end' ms2
                              (snd (getData fetch now now' rnd start end' metrics w))))
                   = fetchLog w @ [(start, end', sort metrics, getResolutionForRange start end'),
                                   (start, end', sort metrics, getResolutionForRange start end')]))"
proof -
  let ?res = "getResolutionForRange start end'"
  let ?key = "cacheKeyOf start end' ?res metrics"
  let ?out = "getData fetch now now' rnd start end' metrics w"
  have ok: "\<exists>r. fst ?out = Inr r"
    by (simp add: getData_unfold fails split: option.splits sum.splits)
  have frame: "service (snd ?out) = service w"
    by (simp add: getData_unfold fails split: option.splits sum.splits)
  have miss: "fst ?out = Inr (generateDataByResolution now' rnd ?res (Some start) (Some end')
                                (Some (sort metrics)))
              \<and> snd ?out = w\<lparr>fetchLog := fetchLog w @ [(start, end', sort metrics, ?res)]\<rparr>"
    if "cacheLookup (service w) ?key now = None"
    using that by (simp add: getData_unfold fails)
  have later: "cacheLookup (service (snd ?out)) ?key t = None"
    if "cacheLookup (service w) ?key now = None" "now \<le> t" for t
    using that frame cacheLookup_expired_later by simp
  have retry: "fetchLog (snd (getData fetch2 t t' rnd2 start end' ms2 (snd ?out)))
                 = fetchLog w @ [(start, end', sort metrics, ?res), (start, end', sort metrics, ?res)]"
    if m: "cacheLookup (service w) ?key now = None" and t: "now \<le> t"
      and ms2: "sort ms2 = sort metrics" for t ms2
  proof -
    have key2: "cacheKeyOf start end' ?res ms2 = ?key"
      using cacheKeyOf_cong [OF ms2] .
    have "cacheLookup (service (snd ?out)) ?key t = None" using later [OF m t] .
    then show ?thesis
      using miss [OF m]
      by (simp add: getData_unfold [of fetch2] key2 ms2 split: sum.splits)
  qed
  show ?thesis using ok frame miss later retry by blast
qed

theorem getData_fetch_failure_witness:
  "fst (getData failingFetch 1700000000000 1700000000250 midDraws
          1699999000000 1700000000000 [''gpu_1'', ''cpu_1''] emptyWorld)
     = Inr (generateDataByResolution 1700000000250 midDraws R30s
              (Some 1699999000000) (Some 1700000000000) (Some [''cpu_1'', ''gpu_1'']))
   \<and> service (snd (getData failingFetch 1700000000000 1700000000250
          midDraws 1699999000000 1700000000000 [''gpu_1'', ''cpu_1''] emptyWorld))
     = emptyService"
  using getData_fetch_failure [where fetch = failingFetch
      and err = "FetchError ''timeout''" and start = 1699999000000 and end' = 1700000000000
      and metrics = "[''gpu_1'', ''cpu_1'']" and w = emptyWorld and now = 1700000000000
      and now' = 1700000000250 and rnd = midDraws]
  by (simp add: cacheLookup_def emptyWorld_def emptyService_def getResolutionForRange_def
      failingFetch_def)

text \<open>
  Two identical requests 50 ms apart: the second is made while the first still
  awaits its fetch (\<open>fetchMetrics\<close> takes at least 100 ms), so both miss the cache
  and both call \<open>fetchMetrics\<close>. And two identical requests one minute apart, one
  after the other, the remote fetch throwing both times: the first call caches
  nothing, so the second call reaches the remote fetch again.
\<close>

theorem getData_twice_counterexample:
  "(1700000000050::int) - 1700000000000 < CACHE_DURATION
   \<and> fetchLog (twoCallsOverlapped (fetchMetrics 1700000000200 midDraws)
        1700000000000 1700000000050 1700000000300 midDraws
        1699999000000 1700000000000 [''cpu_1''] emptyWorld)
     = [(1699999000000, 1700000000000, [''cpu_1''], R30s),
        (1699999000000, 1700000000000, [''cpu_1''], R30s)]
   \<and> (1700000060000::int) - 1700000000000 < CACHE_DURATION
   \<and> fetchLog (snd (getData failingFetch
               1700000060000 1700000060250 midDraws
               1699999000000 1700000000000 [''cpu_1'']
               (snd (getData failingFetch
                       1700000000000 1700000000250 midDraws
                       1699999000000 1700000000000 [''cpu_1''] emptyWorld))))
     = [(1699999000000, 1700000000000, [''cpu_1''], R30s),
        (1699999000000, 1700000000000, [''cpu_1''], R30s)]"
  by (simp add: twoCallsOverlapped_def getDataBegin_def getDataSettle_def getDataResume_def
      fetchMetrics_def getData_unfold generateCacheKey_eq cacheLookup_def emptyWorld_def
      emptyService_def CACHE_DURATION_def Let_def failingFetch_def getResolutionForRange_def)

text \<open>
  C3 (amended). \<open>getData\<close> is called twice with identical arguments, the second call
  made after the first has settled and less than 5 minutes after it. If the remote
  fetch of the first call does not throw, the remote fetch is called at most once in
  the two calls together; when the first call reached the fetch, the second call is
  served from the cache and returns the same series.
\<close>

theorem getData_second_call_cached:
  assumes ok: "fetch1 start end' (sort metrics) (getResolutionForRange start end') = Inr data"
    and soon: "now2 - now1 < CACHE_DURATION"
  shows "length (fetchLog (snd (getData fetch2 now2 now2' rnd2 start end' metrics
                    (snd (getData fetch1 now1 now1' rnd1 start end' metrics w)))))
           \<le> length (fetchLog w) + 1
       \<and> (cacheLookup (service w)
             (cacheKeyOf start end' (getResolutionForRange start end') metrics) now1 = None
           \<longrightarrow> fetchLog (snd (getData fetch2 now2 now2' rnd2 start end' metrics
                    (snd (getData fetch1 now1 now1' rnd1 start end' metrics w))))
                 = fetchLog w @ [(start, end', sort metrics, getResolutionForRange start end')]
             \<and> fst (getData fetch2 now2 now2' rnd2 start end' metrics
                    (snd (getData fetch1 now1 now1' rnd1 start end' metrics w)))
                 = Inr data
             \<and> fst (getData fetch1 now1 now1' rnd1 start end' metrics w) = Inr data)"
proof -
  let ?res = "getResolutionForRange start end'"
  let ?key = "cacheKeyOf start end' ?res metrics"
  let ?w1 = "snd (getData fetch1 now1 now1' rnd1 start end' metrics w)"
  let ?out2 = "getData fetch2 now2 now2' rnd2 start end' metrics ?w1"
  show ?thesis
  proof (cases "cacheLookup (service w) ?key now1")
    case None
    then have w1: "?w1 = w\<lparr>service := (service w)\<lparr>cache := (cache (service w))(?key \<mapsto> data),
                               cacheExpiry := (cacheExpiry (service w))(?key \<mapsto> now1)\<rparr>,
                           fetchLog := fetchLog w @ [(start, end', sort metrics, ?res)]\<rparr>"
      and r1: "fst (getData fetch1 now1 now1' rnd1 start end' metrics w) = Inr data"
      by (simp_all add: getData_unfold generateCacheKey_eq Let_def ok)
    have hit: "cacheLookup (service ?w1) ?key now2 = Some data"
      using soon by (simp add: w1 cacheLookup_def)
    have "?out2 = (Inr data, ?w1)"
      by (simp add: getData_unfold [of fetch2] generateCacheKey_eq Let_def hit)
    then show ?thesis using None r1 by (simp add: w1)
  next
    case (Some cached)
    then have w1: "?w1 = w"
      by (simp add: getData_unfold generateCacheKey_eq Let_def)
    have "length (fetchLog (snd (getData fetch2 now2 now2' rnd2 start end' metrics w)))
            \<le> length (fetchLog w) + 1"
      by (simp add: getData_unfold generateCacheKey_eq Let_def split: option.splits sum.splits)
    then show ?thesis using Some by (simp add: w1)
  qed
qed

theorem getData_second_call_cached_witness:
  "(1700000060000::int) - 1700000000000 < CACHE_DURATION
   \<and> fetchLog (snd (getData (fetchMetrics 1700000060300 midDraws)
               1700000060000 1700000060250 midDraws
               1699999000000 1700000000000 [''cpu_1'']
               (snd (getData (fetchMetrics 1700000000300 midDraws)
                       1700000000000 1700000000250 midDraws
                       1699999000000 1700000000000 [''cpu_1''] emptyWorld))))
     = [(1699999000000, 1700000000000, [''cpu_1''], R30s)]"
  using getData_second_call_cached [where ?fetch1.0 = "fetchMetrics 1700000000300 midDraws"
      and ?fetch2.0 = "fetchMetrics 1700000060300 midDraws"
      and start = 1699999000000 and end' = 1700000000000 and metrics = "[''cpu_1'']"
      and ?now1.0 = 1700000000000 and ?now2.0 = 1700000060000 and w = emptyWorld
      and ?now1' = 1700000000250 and ?now2' = 1700000060250
      and ?rnd1.0 = midDraws and ?rnd2.0 = midDraws
      and data = "generateDataByResolution 1700000000300 (\<lambda>k. midDraws (k + 1)) R30s
          (Some 1699999000000) (Some 1700000000000) (Some [''cpu_1''])"]
  by (simp add: fetchMetrics_def cacheLookup_def emptyWorld_def emptyService_def
      getResolutionForRange_def CACHE_DURATION_def)

section \<open>Cache eviction\<close>

text \<open>
  \<open>clearCache(0, 1000, '30s', ['cpu_1'])\<close> is given all four arguments, with
  \<open>start < end\<close>, and removes the entry of another window.
\<close>

theorem clearCache_zero_start_counterexample:
  "(0::int) < 1000
   \<and> cacheKeyOf 0 1000 R30s [''cpu_1''] \<noteq> ''1000-2000-30s-cpu_1''
   \<and> cache \<lparr>cache = [''1000-2000-30s-cpu_1'' \<mapsto> \<lparr>step = R30s, points = []\<rparr>],
             cacheExpiry = [''1000-2000-30s-cpu_1'' \<mapsto> 5]\<rparr> ''1000-2000-30s-cpu_1''
       = Some \<lparr>step = R30s, points = []\<rparr>
   \<and> cache (clearCache (Some 0) (Some 1000) (Some R30s) (Some [''cpu_1''])
              \<lparr>cache = [''1000-2000-30s-cpu_1'' \<mapsto> \<lparr>step = R30s, points = []\<rparr>],
               cacheExpiry = [''1000-2000-30s-cpu_1'' \<mapsto> 5]\<rparr>) ''1000-2000-30s-cpu_1''
       = None"
  by (simp add: clearCache_def truthy_def cacheKeyOf_def generateCacheKey_def numToString_def
      digitsOf.simps)

text \<open>
  C7 (amended). For every cache state and every argument tuple all of whose four
  arguments are given, with \<open>start\<close> and \<open>end\<close> both different from 0,
  \<open>clearCache\<close> removes at most the entry whose key is derived from the tuple, from
  the cache and from the expiry stamps, and leaves every other entry as it was;
  when the key is not present the call changes nothing.
\<close>

theorem clearCache_frame:
  assumes "start \<noteq> 0" and "end' \<noteq> 0"
  shows "(\<forall>k. k \<noteq> cacheKeyOf start end' resolution metrics \<longrightarrow>
            cache (clearCache (Some start) (Some end') (Some resolution) (Some metrics) s) k
              = cache s k
          \<and> cacheExpiry (clearCache (Some start) (Some end') (Some resolution) (Some metrics) s) k
              = cacheExpiry s k)
       \<and> cache (clearCache (Some start) (Some end') (Some resolution) (Some metrics) s)
            (cacheKeyOf start end' resolution metrics) = None
       \<and> cacheExpiry (clearCache (Some start) (Some end') (Some resolution) (Some metrics) s)
            (cacheKeyOf start end' resolution metrics) = None
       \<and> (cache s (cacheKeyOf start end' resolution metrics) = None
            \<and> cacheExpiry s (cacheKeyOf start end' resolution metrics) = None
          \<longrightarrow> clearCache (Some start) (Some end') (Some resolution) (Some metrics) s = s)"
  using assms by (auto simp: clearCache_def truthy_def generateCacheKey_eq fun_upd_idem)

theorem clearCache_frame_witness:
  "cache (clearCache (Some 1000) (Some 5000) (Some R30s) (Some [''cpu_1''])
              \<lparr>cache = [''1000-2000-30s-cpu_1'' \<mapsto> \<lparr>step = R30s, points = []\<rparr>],
               cacheExpiry = [''1000-2000-30s-cpu_1'' \<mapsto> 5]\<rparr>) ''1000-2000-30s-cpu_1''
       = Some \<lparr>step = R30s, points = []\<rparr>
  \<and> cache (clearCache (Some 1000) (Some 2000) (Some R30s) (Some [''cpu_1''])
              \<lparr>cache = [''1000-2000-30s-cpu_1'' \<mapsto> \<lparr>step = R30s, points = []\<rparr>],
               cacheExpiry = [''1000-2000-30s-cpu_1'' \<mapsto> 5]\<rparr>) ''1000-2000-30s-cpu_1''
       = None"
  using clearCache_frame [where start = 1000 and end' = 5000 and resolution = R30s
      and metrics = "[''cpu_1'']"
      and s = "\<lparr>cache = [''1000-2000-30s-cpu_1'' \<mapsto> \<lparr>step = R30s, points = []\<rparr>],
               cacheExpiry = [''1000-2000-30s-cpu_1'' \<mapsto> 5]\<rparr>"]
    clearCache_frame [where start = 1000 and end' = 2000 and resolution = R30s
      and metrics = "[''cpu_1'']"
      and s = "\<lparr>cache = [''1000-2000-30s-cpu_1'' \<mapsto> \<lparr>step = R30s, points = []\<rparr>],
               cacheExpiry = [''1000-2000-30s-cpu_1'' \<mapsto> 5]\<rparr>"]
  by (simp add: cacheKeyOf_def generateCacheKey_def numToString_def digitsOf.simps)

section \<open>Synthesized series\<close>

lemma pointsLoop_length:
  "length (fst (pointsLoop rnd ms bv startTime iv pointCount i st))
     = length (fst st) + nat (pointCount - i)"
proof (induction rnd ms bv startTime iv pointCount i st rule: pointsLoop.induct)
  case (1 rnd ms bv startTime iv pointCount i st)
  show ?case
  proof (cases "i < pointCount")
    case True
    obtain point' k' where f: "fold (pointStep rnd bv) ms
        ([(''t'', real_of_int (Math_round (real_of_int startTime + real_of_int i * iv)))], snd st)
        = (point', k')"
      by (cases "fold (pointStep rnd bv) ms
        ([(''t'', real_of_int (Math_round (real_of_int startTime + real_of_int i * iv)))], snd st)")
    have "length (fst (pointsLoop rnd ms bv startTime iv pointCount (i + 1) (fst st @ [point'], k')))
            = length (fst (fst st @ [point'], k')) + nat (pointCount - (i + 1))"
      using "1.IH" [OF True refl refl f [symmetric] refl] .
    then show ?thesis
      using True by (subst pointsLoop.simps) (simp add: Let_def f nat_diff_distrib)
  next
    case False
    then show ?thesis by (subst pointsLoop.simps) simp
  qed
qed

lemma pointsLoop_all:
  assumes "\<forall>p\<in>set (fst st). P p"
    and "\<And>j k. P (fst (fold (pointStep rnd bv) ms
        ([(''t'', real_of_int (Math_round (real_of_int startTime + real_of_int j * iv)))], k)))"
  shows "\<forall>p\<in>set (fst (pointsLoop rnd ms bv startTime iv pointCount i st)). P p"
  using assms
proof (induction rnd ms bv startTime iv pointCount i st rule: pointsLoop.induct)
  case (1 rnd ms bv startTime iv pointCount i st)
  note step' = "1.prems"(2)
  show ?case
  proof (cases "i < pointCount")
    case True
    obtain point' k' where f: "fold (pointStep rnd bv) ms
        ([(''t'', real_of_int (Math_round (real_of_int startTime + real_of_int i * iv)))], snd st)
        = (point', k')"
      by (cases "fold (pointStep rnd bv) ms
        ([(''t'', real_of_int (Math_round (real_of_int startTime + real_of_int i * iv)))], snd st)")
    have "P point'" using step' [of i "snd st"] f by simp
    then have "\<forall>p\<in>set (fst (fst st @ [point'], k')). P p" using "1.prems"(1) by simp
    then have "\<forall>p\<in>set (fst (pointsLoop rnd ms bv startTime iv pointCount (i + 1)
                              (fst st @ [point'], k'))). P p"
      using "1.IH" [OF True refl refl f [symmetric] refl] step' by blast
    then show ?thesis
      using True by (subst pointsLoop.simps) (simp add: Let_def f)
  next
    case False
    then show ?thesis using "1.prems"(1) by (subst pointsLoop.simps) simp
  qed
qed

lemma toFixed1_bounds: "0 \<le> x \<Longrightarrow> x \<le> 100 \<Longrightarrow> 0 \<le> toFixed1 x \<and> toFixed1 x \<le> 100"
  unfolding toFixed1_def by (simp add: le_floor_iff floor_le_iff) 

lemma generateRandomValue_bounds:
  "0 \<le> fst (generateRandomValue rnd k b r v) \<and> fst (generateRandomValue rnd k b r v) \<le> 100"
  by (simp add: generateRandomValue_def)

lemma pointStep_map_of:
  "map_of (fst (pointStep rnd bv m (p, k)))
     = (map_of p)(m \<mapsto> toFixed1 (fst (generateRandomValue rnd k (the (map_of bv m))
                                        (metricRange m) 0.1)))"
  by (simp add: pointStep_def Let_def update_conv' split: prod.splits)

lemma pointStep_metricInRange:
  "metricInRange (fst (pointStep rnd bv m (p, k))) x \<longleftrightarrow> x = m \<or> metricInRange p x"
  unfolding metricInRange_def pointStep_map_of
  using toFixed1_bounds [OF generateRandomValue_bounds [THEN conjunct1]
      generateRandomValue_bounds [THEN conjunct2]]
  by simp

lemma fold_pointStep_metricInRange:
  "metricInRange (fst (fold (pointStep rnd bv) ms (p, k))) x
     \<longleftrightarrow> x \<in> set ms \<or> metricInRange p x"
proof (induction ms arbitrary: p k)
  case Nil
  then show ?case by simp
next
  case (Cons m ms)
  obtain p' k' where s: "pointStep rnd bv m (p, k) = (p', k')"
    by (cases "pointStep rnd bv m (p, k)")
  have "metricInRange p' x \<longleftrightarrow> x = m \<or> metricInRange p x"
    using pointStep_metricInRange [of rnd bv m p k x] s by simp
  then show ?case using Cons.IH [of p' k'] by (auto simp: s)
qed


lemma generateDataByResolution_points:
  "points (generateDataByResolution now rnd resolution start end' metrics)
     = fst (pointsLoop rnd (metricsOrDefault metrics)
              (fst (fold (baseValueStep rnd) (metricsOrDefault metrics) ([], 0)))
              (effectiveStart now start)
              (real_of_int (effectiveEnd now end' - effectiveStart now start)
                 / real_of_int (if cappedPointCount now resolution start end' - 1 = 0 then 1
                                else cappedPointCount now resolution start end' - 1))
              (cappedPointCount now resolution start end') 0
              ([], snd (fold (baseValueStep rnd) (metricsOrDefault metrics) ([], 0))))"
  unfolding generateDataByResolution_def metricsOrDefault_def Let_def effectiveStart_def
    effectiveEnd_def cappedPointCount_def
  by (simp add: split_beta del: getPointCount.simps)

lemma generateDataByResolution_length:
  "length (points (generateDataByResolution now rnd resolution start end' metrics))
     = nat (cappedPointCount now resolution start end')"
  by (simp add: generateDataByResolution_points pointsLoop_length)

lemma generateDataByResolution_all:
  assumes "\<And>bv t k. P (fst (fold (pointStep rnd bv) (metricsOrDefault metrics) ([(''t'', t)], k)))"
  shows "\<forall>p\<in>set (points (generateDataByResolution now rnd resolution start end' metrics)). P p"
  unfolding generateDataByResolution_points
  by (rule pointsLoop_all) (simp_all add: assms)





lemma or_else_nonzero: "x \<noteq> 0 \<Longrightarrow> or_else (Some x) d = x"
  by (simp add: or_else_def truthy_def)

text \<open>
  C8. Whatever the window, the resolution, the metric list and the random draws,
  every point of the series of \<open>generateDataByResolution\<close> carries, for every metric
  of the list, a value between 0 and 100; so does every point of the series that
  \<open>fetchMetrics\<close> resolves with. With an empty metric list each point has the key
  \<open>t\<close> and no other. The series has as many points as the capped point count says,
  one point when that count is 1.
\<close>

theorem generateDataByResolution_bounded:
  "(\<forall>p\<in>set (points (generateDataByResolution now rnd resolution start end' metrics)).
      \<forall>m\<in>set (metricsOrDefault metrics). metricInRange p m)
   \<and> (\<forall>p\<in>set (points (generateDataByResolution now rnd resolution start end' (Some []))).
        map fst p = [''t''])
   \<and> (\<exists>r. fetchMetrics now rnd s e ms resolution = Inr r
          \<and> (\<forall>p\<in>set (points r). \<forall>m\<in>set ms. metricInRange p m))
   \<and> length (points (generateDataByResolution now rnd resolution start end' metrics))
       = nat (cappedPointCount now resolution start end')"
proof -
  have a: "\<forall>p\<in>set (points (generateDataByResolution now' rnd' resolution start' end'' metrics')).
      \<forall>m\<in>set (metricsOrDefault metrics'). metricInRange p m" for now' rnd' start' end'' metrics'
    by (rule generateDataByResolution_all) (simp add: fold_pointStep_metricInRange)
  have b: "\<forall>p\<in>set (points (generateDataByResolution now rnd resolution start end' (Some []))).
        map fst p = [''t'']"
    by (rule generateDataByResolution_all) (simp add: metricsOrDefault_def)
  have c: "\<forall>p\<in>set (points (generateDataByResolution now (\<lambda>k. rnd (k + 1)) resolution
                (Some s) (Some e) (Some ms))). \<forall>m\<in>set ms. metricInRange p m"
    using a [of now "\<lambda>k. rnd (k + 1)" "Some s" "Some e" "Some ms"]
    by (simp add: metricsOrDefault_def)
  show ?thesis
    using a b c by (simp add: fetchMetrics_def generateDataByResolution_length)
qed

theorem generateDataByResolution_bounded_witness:
  "points (generateDataByResolution 0 midDraws R30s (Some 1000) (Some 31001) (Some [''cpu_1'']))
     = [[(''t'', 1000), (''cpu_1'', 40)], [(''t'', 31001), (''cpu_1'', 40)]]
   \<and> metricInRange [(''t'', 1000), (''cpu_1'', 40)] ''cpu_1''
   \<and> metricInRange [(''t'', 31001), (''cpu_1'', 40)] ''cpu_1''"
proof -
  have ev: "points (generateDataByResolution 0 midDraws R30s (Some 1000) (Some 31001)
                      (Some [''cpu_1'']))
     = [[(''t'', 1000), (''cpu_1'', 40)], [(''t'', 31001), (''cpu_1'', 40)]]"
    by (simp add: generateDataByResolution_def or_else_def truthy_def pointsLoop.simps Let_def
        baseValueStep_def pointStep_def generateRandomValue_def toFixed1_def Math_round_def
        metricRange_def midDraws_def)
  show ?thesis
    using generateDataByResolution_bounded [where now = 0 and rnd = midDraws
        and resolution = R30s and start = "Some 1000" and end' = "Some 31001"
        and metrics = "Some [''cpu_1'']"]
    by (simp add: ev metricsOrDefault_def)
qed

text \<open>
  A window of exactly 2 \<times> 365 days ending now: the series has 730 points, not 365.
\<close>

theorem two_year_window_counterexample:
  "(1700000000000::int) - 1636928000000 = 2 * 365 * 86400000
   \<and> length (points (generateDataByResolution 1700000000000 midDraws
               (getResolutionForRange 1636928000000 1700000000000)
               (Some 1636928000000) (Some 1700000000000) None)) \<noteq> 365"
  by (simp add: generateDataByResolution_length cappedPointCount_def effectiveStart_def
      effectiveEnd_def or_else_def truthy_def getResolutionForRange_def)

text \<open>
  C6 (amended). For a window whose duration is exactly 2 \<times> 365 days, with both
  bounds different from 0, the chosen resolution is \<open>1d\<close> and the series produced
  for it has exactly 730 points, one per day; the point count 730 is below the cap
  of 10000, which leaves it unchanged.
\<close>

theorem two_year_window_points:
  assumes "start \<noteq> 0" and "end' \<noteq> 0" and "end' - start = 2 * 365 * 86400000"
  shows "getResolutionForRange start end' = R1d
       \<and> length (points (generateDataByResolution now rnd (getResolutionForRange start end')
                    (Some start) (Some end') metrics)) = 730
       \<and> getPointCount start end' R1d = 730
       \<and> cappedPointCount now R1d (Some start) (Some end') = getPointCount start end' R1d"
proof -
  have r: "getResolutionForRange start end' = R1d"
    using assms(3) by (simp add: getResolutionForRange_def)
  have n: "getPointCount start end' R1d = 730"
    using assms(3) by simp
  have c: "cappedPointCount now R1d (Some start) (Some end') = 730"
    unfolding cappedPointCount_def effectiveStart_def effectiveEnd_def
    using assms(1,2) n by (simp add: or_else_nonzero del: getPointCount.simps)
  show ?thesis
    using r n c by (simp add: generateDataByResolution_length del: getPointCount.simps)
qed

theorem two_year_window_points_witness:
  "getResolutionForRange 1636928000000 1700000000000 = R1d
   \<and> length (points (generateDataByResolution 1700000000000 midDraws
               (getResolutionForRange 1636928000000 1700000000000)
               (Some 1636928000000) (Some 1700000000000) None)) = 730"
proof -
  have h1: "(1636928000000::int) \<noteq> 0" and h2: "(1700000000000::int) \<noteq> 0"
    and h3: "(1700000000000::int) - 1636928000000 = 2 * 365 * 86400000"
    by simp_all
  from two_year_window_points [OF h1 h2 h3, of 1700000000000 midDraws None]
  show ?thesis by blast
qed



section \<open>Render sampling\<close>

lemma sampleLoop_eq:
  "0 < step' \<Longrightarrow> sampleLoop data step' i acc
     = Some (acc @ map ((!) data) (strideFrom (length data) step' i))"
proof (induction "length data" step' i arbitrary: acc rule: strideFrom.induct)
  case (1 step' i)
  show ?case
  proof (cases "i < length data")
    case True
    then show ?thesis
      using "1.hyps" [of "acc @ [data ! i]"] "1.prems"
      by (subst sampleLoop.simps, subst strideFrom.simps) simp
  next
    case False
    then show ?thesis
      by (subst sampleLoop.simps, subst strideFrom.simps) simp
  qed
qed










text \<open>
  Two trailing rows with the same timestamp: the loop keeps the first of them, the
  test on timestamps takes it for the last row, and the last row is not appended.
\<close>

lemma sampleData_equal_trailing_timestamps:
  "sampleData [[1, 10], [2, 20], [3, 30], [3, 40]] 2 = Some [[1, 10], [3, 30]]"
  by (simp add: sampleData_def sampleLoop.simps at0_def)












lemma strideFrom_even: "strideFrom (2 * m) 2 (2 * k) = map (\<lambda>j. 2 * j) [k..<m]"
proof (induction "m - k" arbitrary: k)
  case 0
  then show ?case by (subst strideFrom.simps) simp
next
  case (Suc d)
  then have k: "k < m" by simp
  have "strideFrom (2 * m) 2 (2 * Suc k) = map (\<lambda>j. 2 * j) [Suc k..<m]"
    using Suc.hyps(1) [of "Suc k"] Suc.hyps(2) by simp
  then show ?case using k by (subst strideFrom.simps) (simp add: upt_conv_Cons)
qed

text \<open>
  Twice as many rows as the budget, the last two with different timestamps: the
  loop keeps every second row, which fills the budget, and the last row is added.
\<close>

lemma sampleData_double_budget:
  assumes m: "1 \<le> maxPoints" and len: "length data = 2 * maxPoints"
    and ts: "at0 (data ! (2 * maxPoints - 2)) \<noteq> at0 (data ! (2 * maxPoints - 1))"
  shows "\<exists>r. sampleData data maxPoints = Some r \<and> length r = maxPoints + 1"
proof -
  have st: "nat \<lceil>real (length data) / real maxPoints\<rceil> = 2" using m len by simp
  have js: "strideFrom (2 * maxPoints) 2 0 = map (\<lambda>j. 2 * j) [0..<maxPoints]"
    using strideFrom_even [of maxPoints 0] by simp
  have loop: "sampleLoop data 2 0 [] = Some (map ((!) data) (map (\<lambda>j. 2 * j) [0..<maxPoints]))"
    using sampleLoop_eq [of 2 data 0 "[]"] len js by simp
  have "data \<noteq> []" using len m by auto
  then have lastd: "last data = data ! (2 * maxPoints - 1)"
    using len by (simp add: last_conv_nth)
  have "last (map ((!) data) (map (\<lambda>j. 2 * j) [0..<maxPoints])) = data ! (2 * maxPoints - 2)"
    using m by (simp add: last_map diff_mult_distrib2)
  then show ?thesis
    using m len ts loop lastd by (simp add: sampleData_def st)
qed

lemma sampleData_unchanged: "length data \<le> maxPoints \<Longrightarrow> sampleData data maxPoints = Some data"
  by (simp add: sampleData_def)

text \<open>
  C4. A list no longer than \<open>maxPoints\<close> is returned unchanged, and a longer one
  should come back with at most \<open>maxPoints\<close> rows. Ten rows with distinct
  timestamps and a budget of 5: the stride is 2, the loop keeps rows 0, 2, 4, 6, 8,
  and the last row is appended as a sixth.
\<close>

theorem sampleData_exceeds_maxPoints:
  "sampleData [[0, 1], [1, 1], [2, 1], [3, 1], [4, 1], [5, 1], [6, 1], [7, 1], [8, 1], [9, 1]] 5
     = Some [[0, 1], [2, 1], [4, 1], [6, 1], [8, 1], [9, 1]]
   \<and> length [[0, 1], [2, 1], [4, 1], [6, 1], [8, 1], [9, 1 :: real]] = 6"
  by (simp add: sampleData_def sampleLoop.simps at0_def)

section \<open>Debounced zoom events\<close>










end
